theory Spec2Isabelle
  imports Complex_Main
begin

section \<open>The server-side monitored item of node-opcua\<close>

text \<open>
  A shallow embedding of \<^verbatim>\<open>lib/server/monitored_item.js\<close>. Every method of
  \<^verbatim>\<open>MonitoredItem\<close> is a function from the state before the call to the state after it;
  a failed \<^verbatim>\<open>assert\<close> and a property access on \<^verbatim>\<open>null\<close> or
  \<^verbatim>\<open>undefined\<close> are results of their own. The leading underscore of the private
  methods is dropped (\<^verbatim>\<open>_enqueue_value\<close> is \<open>enqueue_value\<close>).
\<close>

subsection \<open>Errors\<close>

datatype error = AssertionError | TypeError

definition bind :: "error + 'a \<Rightarrow> ('a \<Rightarrow> error + 'b) \<Rightarrow> error + 'b" where
  "bind m f = (case m of Inl e \<Rightarrow> Inl e | Inr x \<Rightarrow> f x)"

definition assert :: "bool \<Rightarrow> error + unit" where
  "assert b = (if b then Inr () else Inl AssertionError)"

subsection \<open>Readings\<close>

text \<open>
  The data model lives in \<^verbatim>\<open>lib/datamodel\<close>. A status code is compared by identity
  only; the four codes the monitored item names are constructors, every other code is
  \<open>OtherStatus\<close> with its number.
\<close>

datatype StatusCode =
  Good | GoodWithOverflowBit | BadOutOfRange | BadDataUnavailable | OtherStatus nat

datatype DataType = Boolean | Int32 | UInt32 | Int64 | UInt64 | Float | Double

text \<open>
  A JavaScript number is an IEEE double. The model takes the real numbers for the finite
  ones and keeps \<open>NaN\<close> apart; no statement below rests on a rounded result. The payload
  of a variant is a number, or for the two 64 bit integer types the array
  \<^verbatim>\<open>[high, low]\<close> of two 32 bit words.
\<close>

datatype number = Num real | NaN

datatype payload = Scalar real | Words int int

record Variant =
  dataType :: DataType
  val :: payload

record DataValue =
  dv_value :: "Variant option"
  statusCode :: StatusCode
  sourceTimestamp :: "int option"
  sourcePicoseconds :: nat
  serverTimestamp :: "int option"
  serverPicoseconds :: nat

text \<open>\<^verbatim>\<open>new DataValue({statusCode: StatusCodes.BadDataUnavailable})\<close>: no value, no timestamp.\<close>

definition unset_DataValue :: DataValue where
  "unset_DataValue =
     \<lparr>dv_value = None, statusCode = BadDataUnavailable, sourceTimestamp = None,
      sourcePicoseconds = 0, serverTimestamp = None, serverPicoseconds = 0\<rparr>"

subsection \<open>Filters\<close>

datatype DataChangeTrigger = Status | StatusValue | StatusValueTimestamp

datatype DeadbandType = None_deadband | Absolute | Percent

record DataChangeFilter =
  trigger :: DataChangeTrigger
  deadbandType :: DeadbandType
  deadbandValue :: real

text \<open>
  \<^verbatim>\<open>self.filter\<close> is \<^verbatim>\<open>null\<close>, a \<^verbatim>\<open>DataChangeFilter\<close> or another
  extension object (an event filter), which \<open>apply_filter\<close> lets pass.
\<close>

datatype MonitoringFilter = DataChange DataChangeFilter | OtherFilter

definition statusCodeHasChanged :: "DataValue \<Rightarrow> DataValue \<Rightarrow> bool" where
  "statusCodeHasChanged newDataValue oldDataValue \<longleftrightarrow>
     statusCode newDataValue \<noteq> statusCode oldDataValue"

text \<open>\<^verbatim>\<open>v.value[i]\<close>: a word of the pair, \<^verbatim>\<open>undefined\<close> (\<open>None\<close>) on a number.\<close>

fun index :: "payload \<Rightarrow> nat \<Rightarrow> int option" where
  "index (Words h l) i = (if i = 0 then Some h else if i = 1 then Some l else None)"
| "index (Scalar x) i = None"

text \<open>
  \<^verbatim>\<open>difference(v1, v2)\<close>. The 64 bit branch is taken when \<^verbatim>\<open>v1\<close> is a
  \<^verbatim>\<open>UInt64\<close> or \<^verbatim>\<open>v2\<close> an \<^verbatim>\<open>Int64\<close>; it asserts that the two high words
  are identical and subtracts the low words, \<^verbatim>\<open>v1\<close> minus \<^verbatim>\<open>v2\<close>. The other
  branch subtracts the values, \<^verbatim>\<open>v2\<close> minus \<^verbatim>\<open>v1\<close>. A subtraction with
  \<^verbatim>\<open>undefined\<close> or with an array of two words yields \<^verbatim>\<open>NaN\<close>.
\<close>

definition difference :: "Variant \<Rightarrow> Variant \<Rightarrow> error + number" where
  "difference v1 v2 =
     (if dataType v1 = UInt64 \<or> dataType v2 = Int64 then
        (let h1 = index (val v1) 0; h2 = index (val v2) 0 in
         bind (assert (h1 = h2)) (\<lambda>_.
           case (index (val v1) 1, index (val v2) 1) of
             (Some l1, Some l2) \<Rightarrow> Inr (Num (real_of_int (l1 - l2)))
           | _ \<Rightarrow> Inr NaN))
      else
        (case (val v1, val v2) of
           (Scalar a, Scalar b) \<Rightarrow> Inr (Num (b - a))
         | _ \<Rightarrow> Inr NaN))"

text \<open>\<^verbatim>\<open>x !== 0\<close>, \<^verbatim>\<open>Math.abs(x)\<close> and \<^verbatim>\<open>x > y\<close> on numbers.\<close>

fun not_zero :: "number \<Rightarrow> bool" where
  "not_zero (Num x) = (x \<noteq> 0)"
| "not_zero NaN = True"

fun Math_abs :: "number \<Rightarrow> number" where
  "Math_abs (Num x) = Num \<bar>x\<bar>"
| "Math_abs NaN = NaN"

fun greater :: "number \<Rightarrow> real \<Rightarrow> bool" where
  "greater (Num x) y = (x > y)"
| "greater NaN y = False"

text \<open>
  \<^verbatim>\<open>difference\<close> reads \<^verbatim>\<open>v1.dataType\<close> first and \<^verbatim>\<open>v2\<close> right after in
  either branch, so a \<^verbatim>\<open>null\<close> value on either side is a \<^verbatim>\<open>TypeError\<close>.
\<close>

definition difference_of_values :: "Variant option \<Rightarrow> Variant option \<Rightarrow> error + number" where
  "difference_of_values x1 x2 =
     (case (x1, x2) of
        (Some v1, Some v2) \<Rightarrow> difference v1 v2
      | _ \<Rightarrow> Inl TypeError)"

text \<open>
  \<^verbatim>\<open>valueHasChanged(self, newDataValue, oldDataValue, deadbandType, deadbandValue)\<close>.
  Of \<^verbatim>\<open>self\<close> it reads only whether \<^verbatim>\<open>self.node\<close> is \<^verbatim>\<open>null\<close>, the argument
  \<open>has_node\<close>. The percent branch checks its three assertions and returns
  \<^verbatim>\<open>true\<close>.
\<close>

definition valueHasChanged ::
  "bool \<Rightarrow> DataValue \<Rightarrow> DataValue \<Rightarrow> DeadbandType \<Rightarrow> real \<Rightarrow> error + bool" where
  "valueHasChanged has_node newDataValue oldDataValue deadband_type deadband_value =
     (case deadband_type of
        None_deadband \<Rightarrow>
          bind (assert (dv_value newDataValue \<noteq> None)) (\<lambda>_.
          bind (difference_of_values (dv_value oldDataValue) (dv_value newDataValue)) (\<lambda>d.
            Inr (not_zero d)))
      | Absolute \<Rightarrow>
          bind (difference_of_values (dv_value oldDataValue) (dv_value newDataValue)) (\<lambda>d.
            Inr (greater (Math_abs d) deadband_value))
      | Percent \<Rightarrow>
          bind (assert (deadband_value \<ge> 0 \<and> deadband_value \<le> 100)) (\<lambda>_.
          bind (assert has_node) (\<lambda>_.
            Inr True)))"

text \<open>
  \<^verbatim>\<open>apply_datachange_filter\<close>: the switch on the trigger. The default case asserts the
  trigger to be \<^verbatim>\<open>StatusValueTimestamp\<close> and falls out of the switch to
  \<^verbatim>\<open>return false\<close>. The \<^verbatim>\<open>||\<close> of the second case does not evaluate its right side
  when the status code has changed.
\<close>

definition apply_datachange_filter ::
  "bool \<Rightarrow> DataChangeFilter \<Rightarrow> DataValue \<Rightarrow> DataValue \<Rightarrow> error + bool" where
  "apply_datachange_filter has_node f newDataValue oldDataValue =
     (case trigger f of
        Status \<Rightarrow> Inr (statusCodeHasChanged newDataValue oldDataValue)
      | StatusValue \<Rightarrow>
          (if statusCodeHasChanged newDataValue oldDataValue then Inr True
           else valueHasChanged has_node newDataValue oldDataValue (deadbandType f) (deadbandValue f))
      | StatusValueTimestamp \<Rightarrow> Inr False)"

text \<open>
  \<^verbatim>\<open>apply_filter(self, newDataValue)\<close>, with \<^verbatim>\<open>self.oldDataValue\<close> read by the
  caller (it is never \<^verbatim>\<open>null\<close>). Without a filter the source calls
  \<^verbatim>\<open>valueHasChanged(newDataValue, oldDataValue, DeadbandType.None)\<close>, one argument
  short: the deadband type stands where the old reading is expected, and the assertion
  \<^verbatim>\<open>oldDataValue instanceof DataValue\<close> fails whenever the call is reached.
\<close>

definition apply_filter ::
  "bool \<Rightarrow> MonitoringFilter option \<Rightarrow> DataValue \<Rightarrow> DataValue \<Rightarrow> error + bool" where
  "apply_filter has_node flt newDataValue oldDataValue =
     (case flt of
        None \<Rightarrow>
          (if statusCodeHasChanged newDataValue oldDataValue then Inr True
           else Inl AssertionError)
      | Some (DataChange f) \<Rightarrow> apply_datachange_filter has_node f newDataValue oldDataValue
      | Some OtherFilter \<Rightarrow> Inr True)"

subsection \<open>The functions of \<^verbatim>\<open>lib/datamodel\<close> the monitored item calls\<close>

text \<open>
  An index range is \<^verbatim>\<open>null\<close> or \<^verbatim>\<open>undefined\<close> (\<open>None\<close>) or a pair of bounds.
  \<^verbatim>\<open>NumericRange.overlap\<close>, \<^verbatim>\<open>extractRange\<close>, \<^verbatim>\<open>sameDataValue\<close> and
  \<^verbatim>\<open>apply_timestamps\<close> are defined in \<^verbatim>\<open>lib/datamodel\<close>; they are parameters
  of the model, and every statement holds for any choice of them unless it says
  otherwise. Both \<^verbatim>\<open>extractRange\<close> and \<^verbatim>\<open>apply_timestamps\<close> hand back a reading
  object of their own.
\<close>

type_synonym NumericRange = "(nat \<times> nat) option"

datatype TimestampsToReturn = Source | Server | Both | Neither

record datavalue_lib =
  overlap :: "NumericRange \<Rightarrow> NumericRange \<Rightarrow> bool"
  extractRange :: "DataValue \<Rightarrow> NumericRange \<Rightarrow> DataValue"
  sameDataValue :: "DataValue \<Rightarrow> DataValue \<Rightarrow> bool"
  apply_timestamps :: "DataValue \<Rightarrow> TimestampsToReturn \<Rightarrow> nat \<Rightarrow> DataValue"

subsection \<open>The monitored item and what it holds on to\<close>

datatype MonitoringMode = Invalid | Disabled | Sampling | Reporting

definition AttributeIds_Value :: nat where
  "AttributeIds_Value = 13"

record ReadValueId =
  attributeId :: nat
  indexRange :: NumericRange

definition defaultItemToMonitor :: ReadValueId where
  "defaultItemToMonitor = \<lparr>attributeId = AttributeIds_Value, indexRange = None\<rparr>"

definition minimumSamplingInterval :: int where
  "minimumSamplingInterval = 50"

definition defaultSamplingInterval :: int where
  "defaultSamplingInterval = 1500"

definition maximumSamplingInterval :: int where
  "maximumSamplingInterval = 1000 * 60 * 60"

definition maxQueueSize :: int where
  "maxQueueSize = 5000"

text \<open>
  The name of an event of the node: \<^verbatim>\<open>"value_changed"\<close>, or what
  \<^verbatim>\<open>BaseNode.makeAttributeEventName\<close> makes of an attribute id.
\<close>

datatype event_name = Value_changed | Attribute_changed nat

definition makeAttributeEventName :: "nat \<Rightarrow> event_name" where
  "makeAttributeEventName a = Attribute_changed a"

text \<open>
  Of the node the item reads an attribute (\<^verbatim>\<open>readAttribute\<close>) and registers callbacks
  on it.
\<close>

record BaseNode =
  attributes :: "nat \<Rightarrow> DataValue"

text \<open>
  The fields of the object come first. A reading is an object the source mutates in
  place (its status code) while the queue and \<^verbatim>\<open>oldDataValue\<close> both refer to it, so
  readings live in a store \<open>heap\<close> and are named by their address; \<open>next_ref\<close> is the
  next free address. The last fields are the runtime the item acts on: the live interval
  timers (handle and period), the next timer handle, the callbacks of this item that are
  registered on the node (by the name of their event, in the order they were
  registered), the value reads \<^verbatim>\<open>readValueAsync\<close> has not answered yet, and the
  registry of running items.

  Modelled from the spec: the registry (\<^verbatim>\<open>lib/misc/objectRegistry\<close>, not among the
  sources) is a counter of live items, one up when an item registers at sampler bind,
  one down when it unregisters at unbind.

  \<^verbatim>\<open>_samplingId\<close> is \<open>None\<close> for \<^verbatim>\<open>null\<close> and \<^verbatim>\<open>0\<close>; the two callbacks are
  \<open>True\<close> when a bound function is stored; \<open>samplingFunc\<close> tells whether the owner has
  installed the sampling function.
\<close>

record MonitoredItem =
  clientHandle :: int
  samplingInterval :: int
  discardOldest :: bool
  queueSize :: int
  monitoredItemId :: int
  queue :: "nat list"
  overflow :: bool
  oldDataValue :: nat
  monitoringMode :: MonitoringMode
  timestampsToReturn :: TimestampsToReturn
  itemToMonitor :: ReadValueId
  item_filter :: "MonitoringFilter option"
  node :: "BaseNode option"
  samplingId :: "nat option"
  value_changed_callback :: bool
  attribute_changed_callback :: bool
  is_sampling :: bool
  samplingFunc :: bool
  heap :: "nat \<Rightarrow> DataValue"
  next_ref :: nat
  timers :: "(nat \<times> int) list"
  next_timer :: nat
  node_listeners :: "event_name list"
  pending_reads :: nat
  running :: int

text \<open>\<^verbatim>\<open>self.node.on(ev, callback)\<close> and \<^verbatim>\<open>self.node.removeListener(ev, callback)\<close>.\<close>

definition node_on :: "event_name \<Rightarrow> MonitoredItem \<Rightarrow> error + MonitoredItem" where
  "node_on ev s =
     (case node s of
        None \<Rightarrow> Inl TypeError
      | Some n \<Rightarrow> Inr (s\<lparr>node_listeners := node_listeners s @ [ev]\<rparr>))"

definition removeListener :: "event_name \<Rightarrow> MonitoredItem \<Rightarrow> error + MonitoredItem" where
  "removeListener ev s =
     (case node s of
        None \<Rightarrow> Inl TypeError
      | Some n \<Rightarrow> Inr (s\<lparr>node_listeners := remove1 ev (node_listeners s)\<rparr>))"

definition new_DataValue :: "DataValue \<Rightarrow> MonitoredItem \<Rightarrow> nat \<times> MonitoredItem" where
  "new_DataValue v s =
     (next_ref s, s\<lparr>heap := (heap s)(next_ref s := v), next_ref := Suc (next_ref s)\<rparr>)"

definition set_statusCode :: "nat \<Rightarrow> StatusCode \<Rightarrow> MonitoredItem \<Rightarrow> MonitoredItem" where
  "set_statusCode a c s = s\<lparr>heap := (heap s)(a := (heap s a)\<lparr>statusCode := c\<rparr>)\<rparr>"

text \<open>What an observer reads: the queued readings, front first, and the old reading.\<close>

definition queue_readings :: "MonitoredItem \<Rightarrow> DataValue list" where
  "queue_readings s = map (heap s) (queue s)"

definition old_reading :: "MonitoredItem \<Rightarrow> DataValue" where
  "old_reading s = heap s (oldDataValue s)"

subsection \<open>Parameters\<close>

record MonitoringParameters =
  p_clientHandle :: int
  p_samplingInterval :: int
  p_discardOldest :: bool
  p_queueSize :: int

record options = MonitoringParameters +
  o_monitoredItemId :: int
  o_monitoringMode :: "MonitoringMode option"
  o_itemToMonitor :: "ReadValueId option"
  o_timestampsToReturn :: "TimestampsToReturn option"
  o_filter :: "MonitoringFilter option"

text \<open>
  \<^verbatim>\<open>samplingInterval || defaultSamplingInterval\<close> keeps a number that is not zero, and
  zero has returned before.
\<close>

definition adjust_sampling_interval :: "int \<Rightarrow> error + int" where
  "adjust_sampling_interval si =
     (if si = 0 then Inr si
      else bind (assert (si \<ge> 0)) (\<lambda>_.
        Inr (min (max si minimumSamplingInterval) maximumSamplingInterval)))"

definition adjust_queue_size :: "int \<Rightarrow> int" where
  "adjust_queue_size q = max 1 (min q maxQueueSize)"

text \<open>
  \<^verbatim>\<open>_validate_parameters\<close>: the types give that the handle, the interval and the queue
  size are finite numbers and \<^verbatim>\<open>discardOldest\<close> a boolean.
\<close>

definition validate_parameters :: "'a MonitoringParameters_scheme \<Rightarrow> error + unit" where
  "validate_parameters opts = assert (p_queueSize opts \<ge> 0)"

definition set_parameters ::
  "'a MonitoringParameters_scheme \<Rightarrow> MonitoredItem \<Rightarrow> error + MonitoredItem" where
  "set_parameters opts s =
     bind (validate_parameters opts) (\<lambda>_.
     bind (adjust_sampling_interval (p_samplingInterval opts)) (\<lambda>si.
       Inr (s\<lparr>clientHandle := p_clientHandle opts,
              samplingInterval := si,
              discardOldest := p_discardOldest opts,
              queueSize := adjust_queue_size (p_queueSize opts)\<rparr>)))"

text \<open>
  The constructor, on a runtime with no reading, no timer and no pending read. The
  fields \<^verbatim>\<open>_set_parameters\<close> fills are written before it runs.
\<close>

definition blank_item :: MonitoredItem where
  "blank_item =
     \<lparr>clientHandle = 0, samplingInterval = 0, discardOldest = False, queueSize = 0,
      monitoredItemId = 0, queue = [], overflow = False, oldDataValue = 0,
      monitoringMode = Invalid, timestampsToReturn = Neither,
      itemToMonitor = defaultItemToMonitor, item_filter = None, node = None,
      samplingId = None, value_changed_callback = False,
      attribute_changed_callback = False, is_sampling = False, samplingFunc = False,
      heap = (\<lambda>_. unset_DataValue), next_ref = 0, timers = [], next_timer = 0,
      node_listeners = [], pending_reads = 0, running = 0\<rparr>"

definition new_MonitoredItem :: "options \<Rightarrow> error + MonitoredItem" where
  "new_MonitoredItem opts =
     bind (assert (o_monitoringMode opts = None)) (\<lambda>_.
     bind (set_parameters opts blank_item) (\<lambda>s.
       let (a, s1) = new_DataValue unset_DataValue s in
       Inr (s1\<lparr>monitoredItemId := o_monitoredItemId opts,
               queue := [],
               overflow := False,
               oldDataValue := a,
               monitoringMode := Invalid,
               timestampsToReturn :=
                 (case o_timestampsToReturn opts of None \<Rightarrow> Neither | Some t \<Rightarrow> t),
               itemToMonitor :=
                 (case o_itemToMonitor opts of None \<Rightarrow> defaultItemToMonitor | Some i \<Rightarrow> i),
               item_filter := o_filter opts,
               node := None\<rparr>)))"

text \<open>
  The owning subscription stores the node and the sampling function in the new item
  before it sets the monitoring mode.
\<close>

definition attach :: "BaseNode option \<Rightarrow> bool \<Rightarrow> MonitoredItem \<Rightarrow> MonitoredItem" where
  "attach n f s = s\<lparr>node := n, samplingFunc := f\<rparr>"

subsection \<open>The queue\<close>

text \<open>
  \<^verbatim>\<open>_enqueue_value(dataValue)\<close>, the reading given by its address. With a queue size
  other than one and \<^verbatim>\<open>discardOldest\<close> the reading is pushed; a queue longer than
  its size then loses its front, and the status code of the new front is asserted to be
  \<^verbatim>\<open>Good\<close> and overwritten (a queue left empty has no front to read). Without
  \<^verbatim>\<open>discardOldest\<close> a full queue marks the new reading and stores it in the last
  cell; on an empty array that assignment writes the property \<^verbatim>\<open>-1\<close> and no cell.
\<close>

definition enqueue_value :: "nat \<Rightarrow> MonitoredItem \<Rightarrow> error + MonitoredItem" where
  "enqueue_value a s0 =
     (let s = s0\<lparr>oldDataValue := a\<rparr> in
      if queueSize s = 1 then Inr (s\<lparr>queue := [a]\<rparr>)
      else if discardOldest s then
        (let s1 = s\<lparr>queue := queue s @ [a]\<rparr> in
         if int (length (queue s1)) > queueSize s1 then
           (let s2 = s1\<lparr>overflow := True, queue := tl (queue s1)\<rparr> in
            case queue s2 of
              [] \<Rightarrow> Inl TypeError
            | front # _ \<Rightarrow>
                bind (assert (statusCode (heap s2 front) = Good)) (\<lambda>_.
                  Inr (set_statusCode front GoodWithOverflowBit s2)))
         else Inr s1)
      else if int (length (queue s)) < queueSize s then Inr (s\<lparr>queue := queue s @ [a]\<rparr>)
      else
        (let s1 = set_statusCode a GoodWithOverflowBit (s\<lparr>overflow := True\<rparr>) in
         Inr (s1\<lparr>queue := (if queue s1 = [] then [] else butlast (queue s1) @ [a])\<rparr>)))"

definition empty_queue :: "MonitoredItem \<Rightarrow> MonitoredItem" where
  "empty_queue s = s\<lparr>queue := [], overflow := False\<rparr>"

text \<open>
  \<^verbatim>\<open>recordValue(dataValue, indexRange)\<close>. The filter is consulted only when
  \<^verbatim>\<open>self.filter\<close> is set.
\<close>

definition recordValue ::
  "datavalue_lib \<Rightarrow> DataValue \<Rightarrow> NumericRange \<Rightarrow> MonitoredItem \<Rightarrow> error + MonitoredItem" where
  "recordValue L dataValue changedRange s =
     (if \<not> overlap L changedRange (indexRange (itemToMonitor s)) then Inr s
      else
        (let (a, s1) = new_DataValue (extractRange L dataValue (indexRange (itemToMonitor s))) s in
         bind (if item_filter s1 \<noteq> None
               then apply_filter (node s1 \<noteq> None) (item_filter s1) (heap s1 a) (old_reading s1)
               else Inr True) (\<lambda>keep.
           if \<not> keep then Inr s1
           else bind (enqueue_value a s1) (\<lambda>s2. Inr (s2\<lparr>oldDataValue := a\<rparr>)))))"

record MonitoredItemNotification =
  n_clientHandle :: int
  n_value :: DataValue

definition extractMonitoredItemNotifications ::
  "datavalue_lib \<Rightarrow> MonitoredItem \<Rightarrow> MonitoredItemNotification list \<times> MonitoredItem" where
  "extractMonitoredItemNotifications L s =
     (if monitoringMode s \<noteq> Reporting then ([], s)
      else
        (map (\<lambda>a. \<lparr>n_clientHandle = clientHandle s,
                   n_value = apply_timestamps L (heap s a) (timestampsToReturn s)
                               (attributeId (itemToMonitor s))\<rparr>)
           (queue s),
         empty_queue s))"

text \<open>
  \<^verbatim>\<open>_adjust_queue_to_match_new_queue_size\<close>. \<^verbatim>\<open>splice(0, n)\<close> drops the first
  \<^verbatim>\<open>n\<close> cells; \<^verbatim>\<open>splice(k)\<close> keeps the first \<^verbatim>\<open>k\<close> cells, a negative
  \<^verbatim>\<open>k\<close> counting from the end. The last element is read before the cut and written
  into the last cell that is left; where no cell is left the array stays empty (and
  only then can the last element have been \<^verbatim>\<open>undefined\<close>).
\<close>

definition splice_from :: "int \<Rightarrow> 'a list \<Rightarrow> 'a list" where
  "splice_from k xs =
     (if k < 0 then take (nat (max (int (length xs) + k) 0)) xs else take (nat k) xs)"

definition adjust_queue_to_match_new_queue_size :: "MonitoredItem \<Rightarrow> error + MonitoredItem" where
  "adjust_queue_to_match_new_queue_size s =
     (let s1 =
        (if queueSize s < int (length (queue s)) then
           (if discardOldest s
            then s\<lparr>queue := drop (nat (int (length (queue s)) - queueSize s)) (queue s)\<rparr>
            else
              (let lastElement = last (queue s);
                   q = splice_from (queueSize s) (queue s)
               in s\<lparr>queue := (if q = [] then [] else butlast q @ [lastElement])\<rparr>))
         else s);
          s2 =
        (if queueSize s1 \<le> 1 then
           (let s' = s1\<lparr>overflow := False\<rparr> in
            case queue s' of
              [a] \<Rightarrow> (if statusCode (heap s' a) = GoodWithOverflowBit
                       then set_statusCode a Good s' else s')
            | _ \<Rightarrow> s')
         else s1)
      in bind (assert (int (length (queue s2)) \<le> queueSize s2)) (\<lambda>_. Inr s2))"

subsection \<open>The sampler\<close>

definition isSampling :: "MonitoredItem \<Rightarrow> bool" where
  "isSampling s \<longleftrightarrow>
     samplingId s \<noteq> None \<or> value_changed_callback s \<or> attribute_changed_callback s"

definition clearInterval :: "nat \<Rightarrow> MonitoredItem \<Rightarrow> MonitoredItem" where
  "clearInterval h s = s\<lparr>timers := filter (\<lambda>t. fst t \<noteq> h) (timers s)\<rparr>"

definition setInterval :: "int \<Rightarrow> MonitoredItem \<Rightarrow> nat \<times> MonitoredItem" where
  "setInterval period s =
     (next_timer s,
      s\<lparr>timers := timers s @ [(next_timer s, period)], next_timer := Suc (next_timer s)\<rparr>)"

definition stop_sampling :: "MonitoredItem \<Rightarrow> error + MonitoredItem" where
  "stop_sampling s =
     bind
       (if attribute_changed_callback s then
          bind (removeListener (makeAttributeEventName (attributeId (itemToMonitor s)))
                  (s\<lparr>running := running s - 1\<rparr>)) (\<lambda>s1.
            Inr (s1\<lparr>attribute_changed_callback := False\<rparr>))
        else if value_changed_callback s then
          bind (assert (samplingId s = None)) (\<lambda>_.
          bind (removeListener Value_changed (s\<lparr>running := running s - 1\<rparr>)) (\<lambda>s1.
            Inr (s1\<lparr>value_changed_callback := False\<rparr>)))
        else
          (case samplingId s of
             Some h \<Rightarrow> Inr ((clearInterval h s)\<lparr>running := running s - 1, samplingId := None\<rparr>)
           | None \<Rightarrow> Inr s))
       (\<lambda>s1.
          bind (assert (samplingId s1 = None)) (\<lambda>_.
          bind (assert (\<not> value_changed_callback s1)) (\<lambda>_.
          bind (assert (\<not> attribute_changed_callback s1)) (\<lambda>_.
            Inr s1))))"

text \<open>
  \<^verbatim>\<open>_on_sampling_timer\<close> hands \<^verbatim>\<open>oldDataValue\<close> and a callback to the sampling
  function; the callback is \<open>sampling_done\<close> below, whenever the sampling function
  calls it.
\<close>

definition on_sampling_timer :: "MonitoredItem \<Rightarrow> error + MonitoredItem" where
  "on_sampling_timer s =
     bind (assert (monitoringMode s = Sampling \<or> monitoringMode s = Reporting)) (\<lambda>_.
       if samplingId s \<noteq> None then
         bind (assert (\<not> is_sampling s)) (\<lambda>_.
         bind (assert (samplingFunc s)) (\<lambda>_.
           Inr (s\<lparr>is_sampling := True\<rparr>)))
       else Inr s)"

definition on_value_changed ::
  "datavalue_lib \<Rightarrow> DataValue \<Rightarrow> NumericRange \<Rightarrow> MonitoredItem \<Rightarrow> error + MonitoredItem" where
  "on_value_changed L dataValue changedRange s =
     (if \<not> sameDataValue L dataValue (old_reading s) then recordValue L dataValue changedRange s
      else Inr s)"

definition sampling_done ::
  "datavalue_lib \<Rightarrow> bool \<Rightarrow> DataValue \<Rightarrow> MonitoredItem \<Rightarrow> error + MonitoredItem" where
  "sampling_done L err newDataValue s =
     bind (if err then Inr s else on_value_changed L newDataValue None s) (\<lambda>s1.
       Inr (s1\<lparr>is_sampling := False\<rparr>))"

text \<open>
  \<^verbatim>\<open>self.node.readAttribute(attributeId)\<close>, and \<^verbatim>\<open>self.node.readValueAsync\<close>,
  which leaves a read pending. The callback handed to the latter is \<open>read_value_done\<close>;
  it does not look at the error.
\<close>

definition readAttribute :: "nat \<Rightarrow> MonitoredItem \<Rightarrow> error + DataValue" where
  "readAttribute a s = (case node s of None \<Rightarrow> Inl TypeError | Some n \<Rightarrow> Inr (attributes n a))"

definition readValueAsync :: "MonitoredItem \<Rightarrow> error + MonitoredItem" where
  "readValueAsync s =
     (case node s of
        None \<Rightarrow> Inl TypeError
      | Some n \<Rightarrow> Inr (s\<lparr>pending_reads := Suc (pending_reads s)\<rparr>))"

definition read_value_done ::
  "datavalue_lib \<Rightarrow> DataValue \<Rightarrow> MonitoredItem \<Rightarrow> error + MonitoredItem" where
  "read_value_done L dataValue s =
     recordValue L dataValue None (s\<lparr>pending_reads := pending_reads s - 1\<rparr>)"

definition start_sampling ::
  "datavalue_lib \<Rightarrow> bool \<Rightarrow> MonitoredItem \<Rightarrow> error + MonitoredItem" where
  "start_sampling L recordInitialValue s0 =
     (let (a, sa) = new_DataValue unset_DataValue s0 in
      bind (stop_sampling (sa\<lparr>oldDataValue := a\<rparr>)) (\<lambda>sb.
        let s = sb\<lparr>running := running sb + 1\<rparr> in
        if attributeId (itemToMonitor s) \<noteq> AttributeIds_Value then
          bind (node_on (makeAttributeEventName (attributeId (itemToMonitor s)))
                  (s\<lparr>samplingInterval := 0, attribute_changed_callback := True\<rparr>)) (\<lambda>s1.
            if recordInitialValue
            then bind (readAttribute (attributeId (itemToMonitor s1)) s1) (\<lambda>dataValue.
                   recordValue L dataValue None s1)
            else Inr s1)
        else if samplingInterval s = 0 then
          bind (node_on Value_changed (s\<lparr>value_changed_callback := True\<rparr>)) (\<lambda>s1.
            if recordInitialValue
            then readValueAsync s1
            else Inr s1)
        else
          bind (assert (samplingInterval s \<ge> minimumSamplingInterval)) (\<lambda>_.
            let (h, s1) = setInterval (samplingInterval s) s;
                s2 = s1\<lparr>samplingId := Some h\<rparr>
            in if recordInitialValue then on_sampling_timer s2 else Inr s2)))"

definition setMonitoringMode ::
  "datavalue_lib \<Rightarrow> MonitoringMode \<Rightarrow> MonitoredItem \<Rightarrow> error + MonitoredItem" where
  "setMonitoringMode L mode s =
     bind (assert (mode \<noteq> Invalid)) (\<lambda>_.
       if mode = monitoringMode s then Inr s
       else
         (let old_monitoringMode = monitoringMode s;
              s1 = s\<lparr>monitoringMode := mode\<rparr>
          in if monitoringMode s1 = Disabled then
               bind (stop_sampling s1) (\<lambda>s2. Inr (s2\<lparr>queue := [], overflow := False\<rparr>))
             else
               bind (assert (monitoringMode s1 = Sampling \<or> monitoringMode s1 = Reporting)) (\<lambda>_.
                 start_sampling L
                   (old_monitoringMode = Invalid \<or> old_monitoringMode = Disabled) s1)))"

definition terminate :: "MonitoredItem \<Rightarrow> error + MonitoredItem" where
  "terminate s = stop_sampling s"

subsection \<open>Modify\<close>

definition change_timer_timeout :: "MonitoredItem \<Rightarrow> MonitoredItem" where
  "change_timer_timeout s =
     (case samplingId s of
        None \<Rightarrow> s
      | Some h \<Rightarrow>
          (let (h', s1) = setInterval (samplingInterval s) (clearInterval h s)
           in s1\<lparr>samplingId := Some h'\<rparr>))"

definition adjust_sampling :: "int \<Rightarrow> MonitoredItem \<Rightarrow> MonitoredItem" where
  "adjust_sampling old_samplingInterval s =
     (if old_samplingInterval \<noteq> samplingInterval s then change_timer_timeout s else s)"

record MonitoredItemModifyResult =
  r_statusCode :: StatusCode
  revisedSamplingInterval :: int
  revisedQueueSize :: int
  filterResult :: "MonitoringFilter option"

definition modify ::
  "TimestampsToReturn option \<Rightarrow> MonitoringParameters \<Rightarrow> MonitoredItem \<Rightarrow>
     error + MonitoredItemModifyResult \<times> MonitoredItem" where
  "modify ts opts s =
     (let old_samplingInterval = samplingInterval s;
          s1 = s\<lparr>timestampsToReturn := (case ts of None \<Rightarrow> timestampsToReturn s | Some t \<Rightarrow> t)\<rparr>
      in bind (set_parameters opts s1) (\<lambda>s2.
         bind (adjust_queue_to_match_new_queue_size s2) (\<lambda>s3.
           let s4 = adjust_sampling old_samplingInterval s3 in
           Inr (\<lparr>r_statusCode = Good,
                 revisedSamplingInterval = samplingInterval s4,
                 revisedQueueSize = queueSize s4,
                 filterResult = None\<rparr>, s4))))"

subsection \<open>Runs\<close>

text \<open>
  What can happen to an item: a call of one of its public methods, or one of its
  callbacks being called by the runtime. A callback can be called only while what calls
  it is there: a tick needs a live timer, an event of the node a registered listener, the
  answer to a value read a pending read, the answer of the sampling function a sampling
  in flight.
\<close>

datatype op =
  SetMonitoringMode MonitoringMode
| Modify "TimestampsToReturn option" MonitoringParameters
| RecordValue DataValue NumericRange
| ExtractMonitoredItemNotifications
| Terminate
| TimerTick
| SamplingDone bool DataValue
| NodeEvent event_name DataValue NumericRange
| ReadValueDone DataValue

fun enabled :: "op \<Rightarrow> MonitoredItem \<Rightarrow> bool" where
  "enabled TimerTick s = (timers s \<noteq> [])"
| "enabled (SamplingDone err dv) s = is_sampling s"
| "enabled (NodeEvent ev dv r) s = (ev \<in> set (node_listeners s))"
| "enabled (ReadValueDone dv) s = (pending_reads s > 0)"
| "enabled _ s = True"

fun apply_op :: "datavalue_lib \<Rightarrow> op \<Rightarrow> MonitoredItem \<Rightarrow> error + MonitoredItem" where
  "apply_op L (SetMonitoringMode m) s = setMonitoringMode L m s"
| "apply_op L (Modify ts opts) s = bind (modify ts opts s) (\<lambda>r. Inr (snd r))"
| "apply_op L (RecordValue dv r) s = recordValue L dv r s"
| "apply_op L ExtractMonitoredItemNotifications s =
     Inr (snd (extractMonitoredItemNotifications L s))"
| "apply_op L Terminate s = terminate s"
| "apply_op L TimerTick s = on_sampling_timer s"
| "apply_op L (SamplingDone err dv) s = sampling_done L err dv s"
| "apply_op L (NodeEvent ev dv r) s = on_value_changed L dv r s"
| "apply_op L (ReadValueDone dv) s = read_value_done L dv s"

text \<open>
  A run from a state: \<open>None\<close> when a callback is called that cannot be, the error when a
  step throws, the last state otherwise.
\<close>

fun run :: "datavalue_lib \<Rightarrow> op list \<Rightarrow> MonitoredItem \<Rightarrow> (error + MonitoredItem) option" where
  "run L [] s = Some (Inr s)"
| "run L (x # xs) s =
     (if \<not> enabled x s then None
      else case apply_op L x s of Inl e \<Rightarrow> Some (Inl e) | Inr s' \<Rightarrow> run L xs s')"

subsection \<open>A new item, and what a run shows\<close>

definition run_new ::
  "datavalue_lib \<Rightarrow> options \<Rightarrow> BaseNode option \<Rightarrow> bool \<Rightarrow> op list \<Rightarrow>
     (error + MonitoredItem) option" where
  "run_new L opts n f xs =
     (case new_MonitoredItem opts of
        Inl e \<Rightarrow> Some (Inl e)
      | Inr s \<Rightarrow> run L xs (attach n f s))"

definition observe :: "(MonitoredItem \<Rightarrow> 'a) \<Rightarrow> (error + MonitoredItem) option \<Rightarrow> 'a option" where
  "observe f r = (case r of Some (Inr s) \<Rightarrow> Some (f s) | _ \<Rightarrow> None)"

subsection \<open>An instance of the data model functions\<close>

text \<open>
  Modelled from the spec: \<^verbatim>\<open>NumericRange.overlap\<close>, which is not among the sources. An
  index range that is absent overlaps every range (the item is fed readings with no
  range at all); two ranges overlap when they share an index.
\<close>

fun spec_overlap :: "NumericRange \<Rightarrow> NumericRange \<Rightarrow> bool" where
  "spec_overlap (Some (a, b)) (Some (c, d)) = (a \<le> d \<and> c \<le> b)"
| "spec_overlap _ _ = True"

text \<open>
  Modelled from the spec: \<^verbatim>\<open>extractRange\<close>, which is not among the sources. It
  produces the narrowed reading; the payloads of this model are scalars, which no range
  narrows.
\<close>

definition spec_extractRange :: "DataValue \<Rightarrow> NumericRange \<Rightarrow> DataValue" where
  "spec_extractRange dv r = dv"

text \<open>
  Modelled from the spec: \<^verbatim>\<open>sameDataValue\<close>, which is not among the sources: the two
  readings are equal.
\<close>

definition spec_sameDataValue :: "DataValue \<Rightarrow> DataValue \<Rightarrow> bool" where
  "spec_sameDataValue a b \<longleftrightarrow> a = b"

text \<open>
  Modelled from the spec: \<^verbatim>\<open>apply_timestamps\<close>, which is not among the sources: the
  timestamps are normalised per \<^verbatim>\<open>timestampsToReturn\<close>, a timestamp that was not asked
  for is removed.
\<close>

definition spec_apply_timestamps :: "DataValue \<Rightarrow> TimestampsToReturn \<Rightarrow> nat \<Rightarrow> DataValue" where
  "spec_apply_timestamps dv ts a =
     (case ts of
        Both \<Rightarrow> dv
      | Source \<Rightarrow> dv\<lparr>serverTimestamp := None, serverPicoseconds := 0\<rparr>
      | Server \<Rightarrow> dv\<lparr>sourceTimestamp := None, sourcePicoseconds := 0\<rparr>
      | Neither \<Rightarrow> dv\<lparr>sourceTimestamp := None, sourcePicoseconds := 0,
                       serverTimestamp := None, serverPicoseconds := 0\<rparr>)"

definition spec_lib :: datavalue_lib where
  "spec_lib =
     \<lparr>overlap = spec_overlap, extractRange = spec_extractRange,
      sameDataValue = spec_sameDataValue, apply_timestamps = spec_apply_timestamps\<rparr>"

subsection \<open>Test data\<close>

text \<open>A reading of a double with a status code and no timestamp.\<close>

definition reading :: "StatusCode \<Rightarrow> real \<Rightarrow> DataValue" where
  "reading c x =
     \<lparr>dv_value = Some \<lparr>dataType = Double, val = Scalar x\<rparr>, statusCode = c,
      sourceTimestamp = None, sourcePicoseconds = 0, serverTimestamp = None,
      serverPicoseconds = 0\<rparr>"

text \<open>A reading of an unsigned 64 bit integer given by its two words.\<close>

definition reading64 :: "StatusCode \<Rightarrow> int \<Rightarrow> int \<Rightarrow> DataValue" where
  "reading64 c h l =
     \<lparr>dv_value = Some \<lparr>dataType = UInt64, val = Words h l\<rparr>, statusCode = c,
      sourceTimestamp = None, sourcePicoseconds = 0, serverTimestamp = None,
      serverPicoseconds = 0\<rparr>"

text \<open>
  The options of an item on the value attribute with no index range, no filter and a
  sampling interval of 100 ms.
\<close>

definition item_options :: "bool \<Rightarrow> int \<Rightarrow> options" where
  "item_options discard qsize =
     \<lparr>p_clientHandle = 7, p_samplingInterval = 100, p_discardOldest = discard,
      p_queueSize = qsize, o_monitoredItemId = 1, o_monitoringMode = None,
      o_itemToMonitor = None, o_timestampsToReturn = None, o_filter = None\<rparr>"

definition plain_node :: BaseNode where
  "plain_node = \<lparr>attributes = (\<lambda>_. reading Good 0)\<rparr>"

definition state_of :: "(error + MonitoredItem) option \<Rightarrow> MonitoredItem" where
  "state_of r = (case r of Some (Inr s) \<Rightarrow> s | _ \<Rightarrow> blank_item)"

text \<open>
  An item of queue size 3 that has recorded the readings 1, 2 and 3 and holds the next
  reading, 4, at the address 4, not yet enqueued.
\<close>

definition full_item :: "bool \<Rightarrow> MonitoredItem" where
  "full_item discard =
     snd (new_DataValue (reading Good 4)
       (state_of (run_new spec_lib (item_options discard 3) None False
         [RecordValue (reading Good 1) None, RecordValue (reading Good 2) None,
          RecordValue (reading Good 3) None])))"

text \<open>
  An item with a periodic sampler that has sampled the values 1 and 2, in the mode
  given.
\<close>

definition sampled_item :: "MonitoringMode \<Rightarrow> MonitoredItem" where
  "sampled_item m =
     state_of (run_new spec_lib (item_options True 3) (Some plain_node) True
       [SetMonitoringMode m, SamplingDone False (reading Good 1),
        TimerTick, SamplingDone False (reading Good 2)])"

text \<open>
  An item with a periodic sampler that was set to \<open>Reporting\<close>, so that its first
  sampling is in flight, and then went through the steps given.
\<close>

definition inflight_item :: "op list \<Rightarrow> MonitoredItem" where
  "inflight_item xs =
     state_of (run_new spec_lib (item_options True 3) (Some plain_node) True
       (SetMonitoringMode Reporting # xs))"



definition resize_ops :: "op list" where
  "resize_ops =
     [RecordValue (reading Good 1) None, RecordValue (reading Good 2) None,
      RecordValue (reading Good 3) None, RecordValue (reading Good 4) None,
      Modify None \<lparr>p_clientHandle = 7, p_samplingInterval = 100, p_discardOldest = True,
                   p_queueSize = 2\<rparr>]"

subsection \<open>Invariants of the item\<close>

text \<open>
  The sampler of an item is well formed when its three bindings agree with the runtime:
  the live timers are the one named by \<^verbatim>\<open>_samplingId\<close>, whose handle has been handed
  out, the callbacks registered on the node are the one callback the item stores, a
  callback is stored only with a node and without a timer, and never both callbacks are.
\<close>

definition sampler_wf :: "MonitoredItem \<Rightarrow> bool" where
  "sampler_wf s \<longleftrightarrow>
     (samplingId s = None \<longrightarrow> timers s = []) \<and>
     (\<forall>h. samplingId s = Some h \<longrightarrow> map fst (timers s) = [h] \<and> h < next_timer s) \<and>
     node_listeners s =
       (if attribute_changed_callback s
        then [makeAttributeEventName (attributeId (itemToMonitor s))]
        else if value_changed_callback s then [Value_changed] else []) \<and>
     (attribute_changed_callback s \<or> value_changed_callback s \<longrightarrow>
        node s \<noteq> None \<and> samplingId s = None) \<and>
     \<not> (attribute_changed_callback s \<and> value_changed_callback s)"

text \<open>And an item that was never enabled, or is disabled, samples nothing.\<close>

definition sampler_ok :: "MonitoredItem \<Rightarrow> bool" where
  "sampler_ok s \<longleftrightarrow>
     sampler_wf s \<and>
     (monitoringMode s = Invalid \<or> monitoringMode s = Disabled \<longrightarrow> \<not> isSampling s)"

text \<open>Every reading the item refers to has been allocated.\<close>

definition refs_ok :: "MonitoredItem \<Rightarrow> bool" where
  "refs_ok s \<longleftrightarrow> oldDataValue s < next_ref s \<and> list_all (\<lambda>a. a < next_ref s) (queue s)"

text \<open>What the normalisation of the parameters leaves: a queue size of one at least, and
  a sampling interval that is zero or not below the minimum.\<close>

definition params_ok :: "MonitoredItem \<Rightarrow> bool" where
  "params_ok s \<longleftrightarrow>
     1 \<le> queueSize s \<and> (samplingInterval s = 0 \<or> minimumSamplingInterval \<le> samplingInterval s)"

definition item_ok :: "MonitoredItem \<Rightarrow> bool" where
  "item_ok s \<longleftrightarrow> sampler_ok s \<and> refs_ok s \<and> params_ok s"

text \<open>A queued reading with \<open>GoodWithOverflowBit\<close> has the overflow flag set.\<close>

definition overflow_ok :: "MonitoredItem \<Rightarrow> bool" where
  "overflow_ok s \<longleftrightarrow>
     (list_ex (\<lambda>a. statusCode (heap s a) = GoodWithOverflowBit) (queue s) \<longrightarrow> overflow s)"


definition clean_reading :: "DataValue \<Rightarrow> bool" where
  "clean_reading dv \<longleftrightarrow> statusCode dv \<noteq> GoodWithOverflowBit"


definition clean_node :: "BaseNode option \<Rightarrow> bool" where
  "clean_node n \<longleftrightarrow> (case n of None \<Rightarrow> True | Some b \<Rightarrow> \<forall>a. clean_reading (attributes b a))"


definition clean_ok :: "MonitoredItem \<Rightarrow> bool" where
  "clean_ok s \<longleftrightarrow> overflow_ok s \<and> clean_node (node s)"

text \<open>
  The converse, with what keeps it: the overflow flag is set only with a queued reading
  that has \<open>GoodWithOverflowBit\<close>, and never at a queue size of one.
\<close>

definition flag_ok :: "MonitoredItem \<Rightarrow> bool" where
  "flag_ok s \<longleftrightarrow>
     (overflow s \<longrightarrow> list_ex (\<lambda>a. statusCode (heap s a) = GoodWithOverflowBit) (queue s)) \<and>
     (queueSize s = 1 \<longrightarrow> \<not> overflow s)"






section \<open>Invariants of a run\<close>

subsection \<open>Evaluating a run\<close>

lemmas run_defs = run_new_def new_MonitoredItem_def set_parameters_def validate_parameters_def
  adjust_sampling_interval_def adjust_queue_size_def blank_item_def new_DataValue_def attach_def
  item_options_def bind_def assert_def recordValue_def enqueue_value_def spec_lib_def
  spec_extractRange_def set_statusCode_def observe_def queue_readings_def reading_def
  minimumSamplingInterval_def maximumSamplingInterval_def maxQueueSize_def defaultItemToMonitor_def
  old_reading_def unset_DataValue_def state_of_def setMonitoringMode_def start_sampling_def
  stop_sampling_def on_sampling_timer_def sampling_done_def on_value_changed_def setInterval_def
  clearInterval_def spec_sameDataValue_def AttributeIds_Value_def node_on_def removeListener_def
  readAttribute_def readValueAsync_def read_value_done_def sampled_item_def full_item_def Let_def


lemmas more_defs = inflight_item_def resize_ops_def modify_def
  adjust_queue_to_match_new_queue_size_def adjust_sampling_def change_timer_timeout_def
  splice_from_def isSampling_def plain_node_def


subsection \<open>Results of the single functions\<close>
















subsection \<open>The references\<close>







subsection \<open>The callbacks\<close>

lemma item_ok_upd [simp]:
  "item_ok (s\<lparr>is_sampling := b\<rparr>) = item_ok s"
  "item_ok (s\<lparr>pending_reads := n\<rparr>) = item_ok s"
  "item_ok (s\<lparr>running := k\<rparr>) = item_ok s"
  by (simp_all add: item_ok_def sampler_ok_def sampler_wf_def refs_ok_def params_ok_def isSampling_def)







subsection \<open>Starting and stopping the sampler\<close>












subsection \<open>Modify, and runs\<close>











subsection \<open>The overflow flag\<close>




lemma clean_ok_upd [simp]:
  "clean_ok (s\<lparr>is_sampling := b\<rparr>) = clean_ok s"
  "clean_ok (s\<lparr>pending_reads := n\<rparr>) = clean_ok s"
  "clean_ok (s\<lparr>monitoringMode := m\<rparr>) = clean_ok s"
  "clean_ok (s\<lparr>timestampsToReturn := ts\<rparr>) = clean_ok s"
  by (simp_all add: clean_ok_def overflow_ok_def)












subsection \<open>The overflow flag along a run\<close>












subsection \<open>The overflow flag needs a marked reading\<close>




lemma flag_ok_upd [simp]:
  "flag_ok (s\<lparr>is_sampling := b\<rparr>) = flag_ok s"
  "flag_ok (s\<lparr>pending_reads := n\<rparr>) = flag_ok s"
  "flag_ok (s\<lparr>monitoringMode := m\<rparr>) = flag_ok s"
  "flag_ok (s\<lparr>timestampsToReturn := ts\<rparr>) = flag_ok s"
  by (simp_all add: flag_ok_def)



















section \<open>Properties\<close>

subsection \<open>The filter evaluator\<close>

text \<open>
  C1. With a percent deadband of 10 the evaluator reports the step from 100.0 to 115.0:
  the percent branch of \<open>valueHasChanged\<close> returns \<^verbatim>\<open>true\<close> whatever the two values
  are, and never reads the range of the node. By the formula of the comment in that
  branch, with a range from 0 to 200, the step is inside the deadband of 20 and is not
  a change.
\<close>

theorem percent_deadband_reports_inside_band:
  "valueHasChanged True (reading Good 115) (reading Good 100) Percent 10 = Inr True
   \<and> apply_filter True
       (Some (DataChange \<lparr>trigger = StatusValue, deadbandType = Percent, deadbandValue = 10\<rparr>))
       (reading Good 115) (reading Good 100)
     = Inr True"
  by (simp add: valueHasChanged_def apply_filter_def apply_datachange_filter_def
      statusCodeHasChanged_def reading_def bind_def assert_def)

text \<open>
  C9. Two unsigned 64 bit values whose high words differ (1 and 2): \<open>difference\<close> fails
  its assertion, and so does the filter evaluator without a deadband and with an
  absolute one; the reading is not evaluated as changed.
\<close>

theorem difference_high_words_differ:
  "difference \<lparr>dataType = UInt64, val = Words 1 5\<rparr> \<lparr>dataType = UInt64, val = Words 2 5\<rparr>
     = Inl AssertionError
   \<and> valueHasChanged True (reading64 Good 2 5) (reading64 Good 1 5) None_deadband 0
     = Inl AssertionError
   \<and> valueHasChanged True (reading64 Good 2 5) (reading64 Good 1 5) Absolute 1
     = Inl AssertionError
   \<and> apply_filter True
       (Some (DataChange \<lparr>trigger = StatusValue, deadbandType = None_deadband, deadbandValue = 0\<rparr>))
       (reading64 Good 2 5) (reading64 Good 1 5)
     = Inl AssertionError"
  by (simp add: difference_def valueHasChanged_def apply_filter_def apply_datachange_filter_def
      statusCodeHasChanged_def difference_of_values_def reading64_def bind_def assert_def)

text \<open>
  With identical high words \<open>difference\<close> is the difference of the low words, the first
  argument minus the second, for two \<^verbatim>\<open>UInt64\<close> and for two \<^verbatim>\<open>Int64\<close> values.
\<close>

theorem difference_low_words:
  "difference \<lparr>dataType = UInt64, val = Words h l1\<rparr> \<lparr>dataType = UInt64, val = Words h l2\<rparr>
     = Inr (Num (real_of_int (l1 - l2)))
   \<and> difference \<lparr>dataType = Int64, val = Words h l1\<rparr> \<lparr>dataType = Int64, val = Words h l2\<rparr>
     = Inr (Num (real_of_int (l1 - l2)))"
  by (simp add: difference_def bind_def assert_def)

subsection \<open>Extracting the notifications\<close>

text \<open>
  C8. In the mode \<open>Reporting\<close>, \<open>extractMonitoredItemNotifications\<close> returns one
  notification for every queued reading, front first, each with the client handle of the
  item and the reading with its timestamps normalised, and leaves the queue empty and
  the overflow flag cleared, nothing else changed. In every other mode it returns the
  empty list and leaves the item as it is.
\<close>

theorem extractMonitoredItemNotifications_drains:
  "(monitoringMode s = Reporting \<longrightarrow>
      map n_value (fst (extractMonitoredItemNotifications L s))
        = map (\<lambda>d. apply_timestamps L d (timestampsToReturn s) (attributeId (itemToMonitor s)))
            (queue_readings s)
      \<and> map n_clientHandle (fst (extractMonitoredItemNotifications L s))
        = replicate (length (queue s)) (clientHandle s)
      \<and> snd (extractMonitoredItemNotifications L s) = s\<lparr>queue := [], overflow := False\<rparr>)
   \<and> (monitoringMode s \<noteq> Reporting \<longrightarrow> extractMonitoredItemNotifications L s = ([], s))"
  by (simp add: extractMonitoredItemNotifications_def queue_readings_def empty_queue_def
      comp_def map_replicate_const)

theorem extractMonitoredItemNotifications_drains_witness:
  "monitoringMode (sampled_item Reporting) = Reporting
   \<and> map n_value (fst (extractMonitoredItemNotifications spec_lib (sampled_item Reporting)))
       = [reading Good 1, reading Good 2]
   \<and> map n_clientHandle (fst (extractMonitoredItemNotifications spec_lib (sampled_item Reporting)))
       = [7, 7]
   \<and> queue (snd (extractMonitoredItemNotifications spec_lib (sampled_item Reporting))) = []
   \<and> \<not> overflow (snd (extractMonitoredItemNotifications spec_lib (sampled_item Reporting)))
   \<and> monitoringMode (sampled_item Sampling) \<noteq> Reporting
   \<and> queue_readings (sampled_item Sampling) = [reading Good 1, reading Good 2]
   \<and> extractMonitoredItemNotifications spec_lib (sampled_item Sampling)
       = ([], sampled_item Sampling)"
  using extractMonitoredItemNotifications_drains [of "sampled_item Reporting" spec_lib]
    extractMonitoredItemNotifications_drains [of "sampled_item Sampling" spec_lib]
  by (simp add: run_defs spec_apply_timestamps_def)

subsection \<open>A reading equal to the old one\<close>

text \<open>
  C10. A reading that \<open>sameDataValue\<close> finds equal to the old reading does not reach
  \<open>recordValue\<close>: \<open>on_value_changed\<close>, which is the callback of both events of the node,
  leaves the item as it is, and the callback of the periodic sampling does no more than
  clear \<open>is_sampling\<close>. Nothing is narrowed, filtered, stored or queued, with or without
  a filter.
\<close>

theorem same_reading_is_not_recorded:
  assumes "sameDataValue L dataValue (old_reading s)"
  shows "on_value_changed L dataValue r s = Inr s
    \<and> apply_op L (NodeEvent ev dataValue r) s = Inr s
    \<and> sampling_done L False dataValue s = Inr (s\<lparr>is_sampling := False\<rparr>)"
  using assms by (simp add: on_value_changed_def sampling_done_def bind_def)

theorem same_reading_is_not_recorded_witness:
  "sameDataValue spec_lib (reading Good 2) (old_reading (sampled_item Reporting))
   \<and> item_filter (sampled_item Reporting) = None
   \<and> on_value_changed spec_lib (reading Good 2) None (sampled_item Reporting)
       = Inr (sampled_item Reporting)
   \<and> apply_op spec_lib (NodeEvent Value_changed (reading Good 2) None) (sampled_item Reporting)
       = Inr (sampled_item Reporting)
   \<and> sampling_done spec_lib False (reading Good 2) (sampled_item Reporting)
       = Inr ((sampled_item Reporting)\<lparr>is_sampling := False\<rparr>)"
proof -
  have same: "sameDataValue spec_lib (reading Good 2) (old_reading (sampled_item Reporting))"
    by (simp add: run_defs)
  have none: "item_filter (sampled_item Reporting) = None"
    by (simp add: run_defs)
  from same none
    same_reading_is_not_recorded [OF same, of None Value_changed]
  show ?thesis by simp
qed

subsection \<open>Overflow of the queue\<close>

text \<open>
  With a queue size above one and \<open>discardOldest\<close>, enqueueing into a full queue
  whose second reading is \<open>Good\<close> drops the front, makes that second reading, now the
  front, \<open>GoodWithOverflowBit\<close>, appends the new reading and sets the overflow flag.
  And recording five \<open>Good\<close> readings 1 to 5 in an item of queue size 3 leaves the
  readings 3, 4 and 5 queued, the first with \<open>GoodWithOverflowBit\<close>, and the flag set.
\<close>

theorem enqueue_value_discard_oldest:
  "(queueSize s > 1 \<and> discardOldest s \<and> int (length (queue s)) \<ge> queueSize s
      \<and> statusCode (heap s (queue s ! 1)) = Good \<longrightarrow>
    enqueue_value a s =
      Inr (s\<lparr>oldDataValue := a, overflow := True, queue := tl (queue s) @ [a],
             heap := (heap s)(queue s ! 1 := (heap s (queue s ! 1))\<lparr>statusCode := GoodWithOverflowBit\<rparr>)\<rparr>))
   \<and> observe (\<lambda>s. (queue_readings s, overflow s))
       (run_new spec_lib (item_options True 3) None False
         [RecordValue (reading Good 1) None, RecordValue (reading Good 2) None,
          RecordValue (reading Good 3) None, RecordValue (reading Good 4) None,
          RecordValue (reading Good 5) None])
     = Some ([reading GoodWithOverflowBit 3, reading Good 4, reading Good 5], True)"
proof (intro conjI impI)
  assume h: "queueSize s > 1 \<and> discardOldest s \<and> int (length (queue s)) \<ge> queueSize s
      \<and> statusCode (heap s (queue s ! 1)) = Good"
  then obtain x y zs where q: "queue s = x # y # zs"
    by (cases "queue s"; cases "tl (queue s)") auto
  with h show "enqueue_value a s =
      Inr (s\<lparr>oldDataValue := a, overflow := True, queue := tl (queue s) @ [a],
             heap := (heap s)(queue s ! 1 := (heap s (queue s ! 1))\<lparr>statusCode := GoodWithOverflowBit\<rparr>)\<rparr>)"
    by (simp add: enqueue_value_def Let_def set_statusCode_def bind_def assert_def)
next
  show "observe (\<lambda>s. (queue_readings s, overflow s))
       (run_new spec_lib (item_options True 3) None False
         [RecordValue (reading Good 1) None, RecordValue (reading Good 2) None,
          RecordValue (reading Good 3) None, RecordValue (reading Good 4) None,
          RecordValue (reading Good 5) None])
     = Some ([reading GoodWithOverflowBit 3, reading Good 4, reading Good 5], True)"
    by (simp add: run_defs)
qed

theorem enqueue_value_discard_oldest_witness:
  "queueSize (full_item True) > 1 \<and> discardOldest (full_item True)
   \<and> int (length (queue (full_item True))) \<ge> queueSize (full_item True)
   \<and> statusCode (heap (full_item True) (queue (full_item True) ! 1)) = Good
   \<and> queue_readings (full_item True) = [reading Good 1, reading Good 2, reading Good 3]
   \<and> observe (\<lambda>s. (queue s, queue_readings s, overflow s))
        (Some (enqueue_value 4 (full_item True)))
      = Some ([2, 3, 4], [reading GoodWithOverflowBit 2, reading Good 3, reading Good 4], True)"
proof -
  have h: "queueSize (full_item True) > 1 \<and> discardOldest (full_item True)
      \<and> int (length (queue (full_item True))) \<ge> queueSize (full_item True)
      \<and> statusCode (heap (full_item True) (queue (full_item True) ! 1)) = Good"
    by (simp add: run_defs)
  have q: "queue (full_item True) = [1, 2, 3]"
    "heap (full_item True) 1 = reading Good 1"
    "heap (full_item True) 2 = reading Good 2"
    "heap (full_item True) 3 = reading Good 3"
    "heap (full_item True) 4 = reading Good 4"
    by (simp_all add: run_defs)
  from enqueue_value_discard_oldest [of "full_item True" 4] h
  have "enqueue_value 4 (full_item True) =
      Inr ((full_item True)\<lparr>oldDataValue := 4, overflow := True,
             queue := tl (queue (full_item True)) @ [4],
             heap := (heap (full_item True))(queue (full_item True) ! 1 :=
               (heap (full_item True) (queue (full_item True) ! 1))\<lparr>statusCode := GoodWithOverflowBit\<rparr>)\<rparr>)"
    by blast
  with h q show ?thesis
    by (simp add: observe_def queue_readings_def reading_def)
qed

text \<open>
  C4. A full queue with \<open>discardOldest\<close> whose second reading is not \<open>Good\<close>: the enqueue
  pushes the reading, sets the flag, drops the front and then fails the assertion on the
  status code of the new front. At queue size 2 the readings \<open>Good\<close>, \<open>BadOutOfRange\<close>,
  \<open>Good\<close> end in an \<open>AssertionError\<close>. So do \<open>Good\<close> readings alone: the third one is
  marked by the queue itself, without \<open>discardOldest\<close>, and is the new front when the
  fourth arrives after \<open>modify\<close> has switched \<open>discardOldest\<close> on.
\<close>

theorem discard_oldest_overflow_fails_assertion:
  "observe queue_readings
      (run_new spec_lib (item_options True 2) None False
        [RecordValue (reading Good 1) None, RecordValue (reading BadOutOfRange 2) None])
    = Some [reading Good 1, reading BadOutOfRange 2]
   \<and> run_new spec_lib (item_options True 2) None False
        [RecordValue (reading Good 1) None, RecordValue (reading BadOutOfRange 2) None,
         RecordValue (reading Good 3) None]
    = Some (Inl AssertionError)
   \<and> observe queue_readings
      (run_new spec_lib (item_options False 2) None False
        [RecordValue (reading Good 1) None, RecordValue (reading Good 2) None,
         RecordValue (reading Good 3) None,
         Modify None \<lparr>p_clientHandle = 7, p_samplingInterval = 100, p_discardOldest = True,
                      p_queueSize = 2\<rparr>])
    = Some [reading Good 1, reading GoodWithOverflowBit 3]
   \<and> run_new spec_lib (item_options False 2) None False
        [RecordValue (reading Good 1) None, RecordValue (reading Good 2) None,
         RecordValue (reading Good 3) None,
         Modify None \<lparr>p_clientHandle = 7, p_samplingInterval = 100, p_discardOldest = True,
                      p_queueSize = 2\<rparr>,
         RecordValue (reading Good 4) None]
    = Some (Inl AssertionError)"
  by (simp add: run_defs more_defs)

text \<open>
  C5. With a queue size above one and without \<open>discardOldest\<close>, enqueueing into a full
  queue stores the new reading in the place of the last one, makes it
  \<open>GoodWithOverflowBit\<close> and sets the overflow flag. And recording five \<open>Good\<close>
  readings 1 to 5 in an item of queue size 3 leaves the readings 1, 2 and 5 queued, the
  last with \<open>GoodWithOverflowBit\<close>, and the flag set.
\<close>

theorem enqueue_value_discard_newest:
  "(queueSize s > 1 \<and> \<not> discardOldest s \<and> int (length (queue s)) \<ge> queueSize s \<longrightarrow>
    enqueue_value a s =
      Inr (s\<lparr>oldDataValue := a, overflow := True, queue := butlast (queue s) @ [a],
             heap := (heap s)(a := (heap s a)\<lparr>statusCode := GoodWithOverflowBit\<rparr>)\<rparr>))
   \<and> observe (\<lambda>s. (queue_readings s, overflow s))
       (run_new spec_lib (item_options False 3) None False
         [RecordValue (reading Good 1) None, RecordValue (reading Good 2) None,
          RecordValue (reading Good 3) None, RecordValue (reading Good 4) None,
          RecordValue (reading Good 5) None])
     = Some ([reading Good 1, reading Good 2, reading GoodWithOverflowBit 5], True)"
proof (intro conjI impI)
  assume h: "queueSize s > 1 \<and> \<not> discardOldest s \<and> int (length (queue s)) \<ge> queueSize s"
  then have "queue s \<noteq> []" by auto
  with h show "enqueue_value a s =
      Inr (s\<lparr>oldDataValue := a, overflow := True, queue := butlast (queue s) @ [a],
             heap := (heap s)(a := (heap s a)\<lparr>statusCode := GoodWithOverflowBit\<rparr>)\<rparr>)"
    by (simp add: enqueue_value_def Let_def set_statusCode_def)
next
  show "observe (\<lambda>s. (queue_readings s, overflow s))
       (run_new spec_lib (item_options False 3) None False
         [RecordValue (reading Good 1) None, RecordValue (reading Good 2) None,
          RecordValue (reading Good 3) None, RecordValue (reading Good 4) None,
          RecordValue (reading Good 5) None])
     = Some ([reading Good 1, reading Good 2, reading GoodWithOverflowBit 5], True)"
    by (simp add: run_defs)
qed


theorem enqueue_value_discard_newest_witness:
  "queueSize (full_item False) > 1 \<and> \<not> discardOldest (full_item False)
   \<and> int (length (queue (full_item False))) \<ge> queueSize (full_item False)
   \<and> queue_readings (full_item False) = [reading Good 1, reading Good 2, reading Good 3]
   \<and> observe (\<lambda>s. (queue s, queue_readings s, overflow s))
        (Some (enqueue_value 4 (full_item False)))
      = Some ([1, 2, 4], [reading Good 1, reading Good 2, reading GoodWithOverflowBit 4], True)"
proof -
  have h: "queueSize (full_item False) > 1 \<and> \<not> discardOldest (full_item False)
      \<and> int (length (queue (full_item False))) \<ge> queueSize (full_item False)"
    by (simp add: run_defs)
  have q: "queue (full_item False) = [1, 2, 3]"
    "heap (full_item False) 1 = reading Good 1"
    "heap (full_item False) 2 = reading Good 2"
    "heap (full_item False) 3 = reading Good 3"
    "heap (full_item False) 4 = reading Good 4"
    by (simp_all add: run_defs)
  from enqueue_value_discard_newest [of "full_item False" 4] h
  have "enqueue_value 4 (full_item False) =
      Inr ((full_item False)\<lparr>oldDataValue := 4, overflow := True,
             queue := butlast (queue (full_item False)) @ [4],
             heap := (heap (full_item False))(4 :=
               (heap (full_item False) 4)\<lparr>statusCode := GoodWithOverflowBit\<rparr>)\<rparr>)"
    by blast
  with h q show ?thesis
    by (simp add: observe_def queue_readings_def reading_def)
qed

subsection \<open>Recording without a filter\<close>

text \<open>
  C2. An item without a filter that has recorded the reading 1 is given the same
  reading again, equal in status code and value to the old reading: \<open>recordValue\<close>
  puts it in the queue a second time, since it consults the filter only when one is set.
  The branch that \<open>apply_filter\<close> has for an item without a filter is never reached, and
  fails its assertion on a reading with an unchanged status code; the data change filter
  with the trigger \<open>StatusValue\<close> and no deadband, which the comments of the source call
  the default without a filter, does not report the reading.
\<close>

theorem unchanged_reading_is_enqueued:
  "observe (\<lambda>s. (item_filter s, old_reading s, queue_readings s))
      (run_new spec_lib (item_options True 3) None False [RecordValue (reading Good 1) None])
    = Some (None, reading Good 1, [reading Good 1])
   \<and> observe queue_readings
      (run_new spec_lib (item_options True 3) None False
        [RecordValue (reading Good 1) None, RecordValue (reading Good 1) None])
    = Some [reading Good 1, reading Good 1]
   \<and> apply_filter False None (reading Good 1) (reading Good 1) = Inl AssertionError
   \<and> apply_filter False
        (Some (DataChange \<lparr>trigger = StatusValue, deadbandType = None_deadband,
                            deadbandValue = 0\<rparr>))
        (reading Good 1) (reading Good 1)
      = Inr False"
  by (simp add: run_defs more_defs apply_filter_def apply_datachange_filter_def
      statusCodeHasChanged_def valueHasChanged_def difference_of_values_def difference_def)

subsection \<open>Between \<open>Sampling\<close> and \<open>Reporting\<close>\<close>




subsection \<open>The overflow flag and the marked readings\<close>




subsection \<open>Disabling\<close>




end
